theory Spec2Isabelle
  imports Complex_Main "HOL-Library.Multiset" "HOL-Library.Sublist"
    "HOL-Library.List_Lexorder" "HOL-Library.Char_ord" "HOL-Library.Monad_Syntax"
begin

section \<open>Strings and numbers of the platform\<close>

text \<open>
  A JavaScript string is a sequence of code units. It is modelled as a \<open>string\<close>,
  each \<open>char\<close> standing for the code unit of the same number (so the model covers
  the code units below 256, the Latin-1 range). The counters of the program (\<open>salt\<close>,
  \<open>index\<close>) start at 0 and only ever grow by one per timer tick; they are natural
  numbers here, as JavaScript numbers are exact on the integers a running page can reach.
\<close>

text \<open>The decimal digits of a natural number: what a template literal prints for it.\<close>

fun decimal :: "nat \<Rightarrow> string" where
  "decimal n =
     (if n < 10 then [char_of (48 + n)]
      else decimal (n div 10) @ [char_of (48 + n mod 10)])"

declare decimal.simps [simp del]

text \<open>\<open>String.prototype.trim\<close>: white space and line terminators, on both ends.\<close>

definition isWhiteSpace :: "char \<Rightarrow> bool" where
  "isWhiteSpace c = ((of_char c :: nat) \<in> {9, 10, 11, 12, 13, 32, 160})"

definition trim :: "string \<Rightarrow> string" where
  "trim s = rev (dropWhile isWhiteSpace (rev (dropWhile isWhiteSpace s)))"

text \<open>\<open>String.prototype.toLowerCase\<close> on the Latin-1 range.\<close>

definition lower_char :: "char \<Rightarrow> char" where
  "lower_char c =
     (let n = (of_char c :: nat) in
      if (65 \<le> n \<and> n \<le> 90) \<or> (192 \<le> n \<and> n \<le> 222 \<and> n \<noteq> 215)
      then char_of (n + 32) else c)"

definition toLowerCase :: "string \<Rightarrow> string" where
  "toLowerCase s = map lower_char s"

text \<open>\<open>s.includes(q)\<close>: \<open>q\<close> occurs in \<open>s\<close> as a contiguous run.\<close>

definition includes_str :: "string \<Rightarrow> string \<Rightarrow> bool" where
  "includes_str s q = sublist q s"

section \<open>Camera records\<close>

text \<open>
  A property value of a feed row: a string, a number or \<open>null\<close>. A key that the row
  does not have reads as \<open>undefined\<close>, which is \<open>None\<close> of the row's map.
\<close>

datatype jsval = JStr string | JNum real | JNull

type_synonym row = "string \<rightharpoonup> jsval"

record camera =
  cam_id :: string
  number :: string
  nameFr :: string
  nameEn :: string
  since :: string
  route :: string
  region :: string
  border :: string
  bridge :: string
  url :: string
  imgDirect :: string
  lat :: "jsval option"
  lon :: "jsval option"

section \<open>Media URLs\<close>

text \<open>
  The URL class belongs to the browser, not to the repository. The definitions take its
  constructor as a parameter \<open>U\<close>: \<open>U s = None\<close> when \<open>new URL(s)\<close> throws, and
  otherwise \<open>U s = Some ps\<close> where \<open>ps\<close> lists the name-value pairs of the resulting
  \<open>searchParams\<close> in order; \<open>searchParams.get(name)\<close> is the value of the first pair
  with that name.
\<close>

type_synonym URL_ctor = "string \<Rightarrow> (string \<times> string) list option"

definition extractIdFromFenetre :: "URL_ctor \<Rightarrow> string \<Rightarrow> string" where
  "extractIdFromFenetre U u =
     (case U u of
        None \<Rightarrow> ''''
      | Some ps \<Rightarrow>
          (case map_of ps ''id'' of
             None \<Rightarrow> ''''
           | Some v \<Rightarrow> if v \<noteq> '''' then v else ''''))"

record variants =
  v_id :: string
  snap :: string
  jpg :: string
  m3u8 :: string
  html :: string

text \<open>The closure \<open>withSalt\<close> of \<open>buildVariants\<close>, with the salt it captures.\<close>

definition withSalt :: "nat \<Rightarrow> string \<Rightarrow> string" where
  "withSalt n u =
     (if u \<noteq> ''''
      then u @ (if CHR ''?'' \<in> set u then ''&'' else ''?'') @ ''_rs='' @ decimal n
      else u)"

text \<open>
  \<open>ORIGIN\<close> is the module constant chosen from the build environment; it is a
  parameter. The result \<open>None\<close> is the empty object \<open>{}\<close> of the early return.
\<close>

definition buildVariants :: "URL_ctor \<Rightarrow> string \<Rightarrow> camera option \<Rightarrow> nat \<Rightarrow> variants option" where
  "buildVariants U ORIGIN cam n =
     (let fen = (case cam of None \<Rightarrow> '''' | Some c \<Rightarrow> url c);
          ident = extractIdFromFenetre U fen
      in if ident = '''' then None
         else
           let primarySnap =
                 (case cam of
                    Some c \<Rightarrow>
                      if imgDirect c \<noteq> '''' then imgDirect c
                      else ORIGIN @ ''/Images/Cameras/Quebec/cam/'' @ ident @ ''.jpg''
                  | None \<Rightarrow> ORIGIN @ ''/Images/Cameras/Quebec/cam/'' @ ident @ ''.jpg'')
           in Some \<lparr>v_id = ident,
                    snap = withSalt n primarySnap,
                    jpg = withSalt n (ORIGIN @ ''/Carte/Fenetres/camera.ashx?id='' @ ident @ ''&format=jpg''),
                    m3u8 = withSalt n (ORIGIN @ ''/Carte/Fenetres/camera.ashx?id='' @ ident @ ''&format=m3u8''),
                    html = withSalt n fen\<rparr>)"

text \<open>The four URLs of a variant set, in the order of the object literal.\<close>

definition urls_of :: "variants \<Rightarrow> string list" where
  "urls_of v = [snap v, jpg v, m3u8 v, html v]"

text \<open>
  Vocabulary for statements about a URL as text: the part before the first \<open>?\<close> or
  \<open>#\<close>, what follows its last \<open>/\<close>, and ending in the parameter \<open>_rs=n\<close> behind a
  \<open>?\<close> or a \<open>&\<close>.
\<close>

definition path_part :: "string \<Rightarrow> string" where
  "path_part u = takeWhile (\<lambda>c. c \<noteq> CHR ''?'' \<and> c \<noteq> CHR ''#'') u"

definition final_path_segment :: "string \<Rightarrow> string" where
  "final_path_segment u = rev (takeWhile (\<lambda>c. c \<noteq> CHR ''/'') (rev (path_part u)))"

text \<open>A numeric id: decimal digits only.\<close>

definition is_digit :: "char \<Rightarrow> bool" where
  "is_digit c = (let n = (of_char c :: nat) in 48 \<le> n \<and> n \<le> 57)"

definition has_trailing_salt :: "nat \<Rightarrow> string \<Rightarrow> bool" where
  "has_trailing_salt n u =
     (suffix (''?_rs='' @ decimal n) u \<or> suffix (''&_rs='' @ decimal n) u)"

subsection \<open>A URL constructor to run examples with\<close>

text \<open>
  \<open>URL_std\<close> follows the URL Standard on absolute URLs written without percent-escapes
  and without surrounding white space: a scheme (a letter, then letters, digits, \<open>+\<close>,
  \<open>-\<close>, \<open>.\<close>) and a colon are required, since no base URL is given; an http, https, ws,
  wss or ftp URL needs a host; the fragment starts at the first \<open>#\<close> and the query at the
  first \<open>?\<close> before it; the query is cut at every \<open>&\<close>, empty pieces are dropped, each
  piece is cut at its first \<open>=\<close> and \<open>+\<close> reads as a space. It serves the concrete
  examples only: every general theorem below holds for any constructor.
\<close>

definition is_ascii_alpha :: "char \<Rightarrow> bool" where
  "is_ascii_alpha c =
     (let n = (of_char c :: nat) in (65 \<le> n \<and> n \<le> 90) \<or> (97 \<le> n \<and> n \<le> 122))"

definition is_scheme_char :: "char \<Rightarrow> bool" where
  "is_scheme_char c =
     (let n = (of_char c :: nat) in
      is_ascii_alpha c \<or> (48 \<le> n \<and> n \<le> 57) \<or> n = 43 \<or> n = 45 \<or> n = 46)"

fun split_on :: "char \<Rightarrow> string \<Rightarrow> string list" where
  "split_on d [] = [[]]"
| "split_on d (c # cs) =
     (if c = d then [] # split_on d cs
      else (case split_on d cs of [] \<Rightarrow> [[c]] | w # ws \<Rightarrow> (c # w) # ws))"

definition plus_to_space :: "string \<Rightarrow> string" where
  "plus_to_space s = map (\<lambda>c. if c = CHR ''+'' then CHR '' '' else c) s"

definition parse_query :: "string \<Rightarrow> (string \<times> string) list" where
  "parse_query q =
     map (\<lambda>s. (plus_to_space (takeWhile (\<lambda>c. c \<noteq> CHR ''='') s),
               plus_to_space (drop 1 (dropWhile (\<lambda>c. c \<noteq> CHR ''='') s))))
       (filter (\<lambda>s. s \<noteq> []) (split_on CHR ''&'' q))"

definition URL_std :: URL_ctor where
  "URL_std s =
     (let scheme = takeWhile (\<lambda>c. c \<noteq> CHR '':'') s;
          rest = drop 1 (dropWhile (\<lambda>c. c \<noteq> CHR '':'') s)
      in if CHR '':'' \<notin> set s \<or> scheme = [] \<or> \<not> is_ascii_alpha (hd scheme)
            \<or> \<not> list_all is_scheme_char scheme
         then None
         else
           let noFrag = takeWhile (\<lambda>c. c \<noteq> CHR ''#'') rest;
               host = takeWhile (\<lambda>c. c \<noteq> CHR ''/'' \<and> c \<noteq> CHR 0x5C \<and> c \<noteq> CHR ''?'')
                        (dropWhile (\<lambda>c. c = CHR ''/'' \<or> c = CHR 0x5C) noFrag)
           in if toLowerCase scheme \<in> {''http'', ''https'', ''ws'', ''wss'', ''ftp''} \<and> host = []
              then None
              else Some (parse_query (drop 1 (dropWhile (\<lambda>c. c \<noteq> CHR ''?'') noFrag))))"

section \<open>The media pane: playback state\<close>

datatype mode = Hls | Snap | Jpg

record time_info =
  source :: string
  date :: "nat option"

text \<open>The state hooks of \<open>MediaPane\<close> that playback depends on.\<close>

record pane =
  mode :: mode
  salt :: nat
  dead :: bool
  timeInfo :: time_info

text \<open>The props of \<open>MediaPane\<close> that its effects read.\<close>

record props =
  camera :: "camera option"
  live :: bool
  refreshMs :: real
  restartSec :: real

text \<open>The initial values of the state hooks, at mount.\<close>

definition initial :: "props \<Rightarrow> pane" where
  "initial pr =
     \<lparr>mode = (if live pr then Hls else Snap), salt = 0, dead = False,
      timeInfo = \<lparr>source = '''', date = None\<rparr>\<rparr>"

text \<open>
  The reset effect. Its dependency list is \<open>[camera?.id, live]\<close>: it runs again after a
  render in which one of the two differs from the render before.
\<close>

definition reset_deps :: "props \<Rightarrow> string option \<times> bool" where
  "reset_deps pr = (map_option cam_id (camera pr), live pr)"

definition reset_effect :: "props \<Rightarrow> pane \<Rightarrow> pane" where
  "reset_effect pr p =
     (case camera pr of
        None \<Rightarrow> p
      | Some c \<Rightarrow>
          p\<lparr>mode := (if live pr then Hls else Snap),
            timeInfo := \<lparr>source = '''', date = None\<rparr>,
            salt := 0,
            dead := False\<rparr>)"

definition rerender :: "props \<Rightarrow> props \<Rightarrow> pane \<Rightarrow> pane" where
  "rerender old new p = (if reset_deps new \<noteq> reset_deps old then reset_effect new p else p)"

text \<open>
  The snapshot refresh effect: the interval it installs, if any, and what each tick does.
\<close>

definition refresh_timer :: "props \<Rightarrow> pane \<Rightarrow> real option" where
  "refresh_timer pr p =
     (if dead p then None
      else if mode p \<noteq> Snap \<and> mode p \<noteq> Jpg then None
      else Some (max 500 (refreshMs pr)))"

definition bump_salt :: "pane \<Rightarrow> pane" where
  "bump_salt p = p\<lparr>salt := salt p + 1\<rparr>"

text \<open>The image element is rendered, with its load and error handlers, exactly when:\<close>

definition img_rendered :: "props \<Rightarrow> pane \<Rightarrow> bool" where
  "img_rendered pr p = (\<not> live pr \<and> \<not> dead p \<and> (mode p = Snap \<or> mode p = Jpg))"

definition onSnapError :: "pane \<Rightarrow> pane" where
  "onSnapError p =
     (if dead p then p
      else if mode p = Snap then p\<lparr>mode := Jpg\<rparr>
      else p\<lparr>dead := True\<rparr>)"

definition setLoadedNow :: "nat \<Rightarrow> pane \<Rightarrow> pane" where
  "setLoadedNow now p =
     (if date (timeInfo p) = None
      then p\<lparr>timeInfo := \<lparr>source = ''Local'', date = Some now\<rparr>\<rparr>
      else p)"

text \<open>
  The stream effect attaches a player only past its guard (the video element exists
  whenever \<open>live\<close> holds in mode \<open>Hls\<close>); the error handlers of that player act until
  the effect is cleaned up, which a change of \<open>live\<close> or of the mode does. The code
  reads the manifest URL from the variant set it memoises on \<open>[camera?.id, salt]\<close>; the
  definition builds it from the camera at hand, which is the same set whenever records of
  one id carry one url.
\<close>

definition hls_attached :: "URL_ctor \<Rightarrow> string \<Rightarrow> props \<Rightarrow> pane \<Rightarrow> bool" where
  "hls_attached U ORIGIN pr p =
     (live pr \<and> mode p = Hls \<and>
      (case buildVariants U ORIGIN (camera pr) (salt p) of
         None \<Rightarrow> False
       | Some v \<Rightarrow> m3u8 v \<noteq> ''''))"

definition onHlsError :: "pane \<Rightarrow> pane" where
  "onHlsError p = p\<lparr>mode := Snap, dead := False\<rparr>"

text \<open>The live-edge effect: its interval in milliseconds, if any.\<close>

definition live_timer :: "props \<Rightarrow> pane \<Rightarrow> real option" where
  "live_timer pr p =
     (if \<not> live pr \<or> mode p \<noteq> Hls \<or> restartSec pr = 0 then None
      else Some (max 2 (restartSec pr) * 1000))"

text \<open>The status badge of the overlay.\<close>

datatype status = LIVE | UNAVAILABLE | SNAPSHOT

definition status_of :: "props \<Rightarrow> pane \<Rightarrow> status" where
  "status_of pr p =
     (if live pr \<and> mode p = Hls then LIVE
      else if dead p then UNAVAILABLE
      else SNAPSHOT)"

text \<open>
  What can happen to a mounted pane: the image fails or loads, a refresh tick, a stream
  error, a live-edge tick, or a render with new props. An event whose handler is not
  installed in the current state changes nothing.
\<close>

datatype event = ImgError | ImgLoad nat | RefreshTick | HlsError | LiveTick | Render props

fun step :: "URL_ctor \<Rightarrow> string \<Rightarrow> props \<times> pane \<Rightarrow> event \<Rightarrow> props \<times> pane" where
  "step U ORIGIN (pr, p) ImgError = (pr, if img_rendered pr p then onSnapError p else p)"
| "step U ORIGIN (pr, p) (ImgLoad now) = (pr, if img_rendered pr p then setLoadedNow now p else p)"
| "step U ORIGIN (pr, p) RefreshTick = (pr, if refresh_timer pr p \<noteq> None then bump_salt p else p)"
| "step U ORIGIN (pr, p) HlsError = (pr, if hls_attached U ORIGIN pr p then onHlsError p else p)"
| "step U ORIGIN (pr, p) LiveTick = (pr, if live_timer pr p \<noteq> None then bump_salt p else p)"
| "step U ORIGIN (pr, p) (Render pr') = (pr', rerender pr pr' p)"

text \<open>A render that keeps both dependencies of the reset effect; any other event does.\<close>

fun keeps_reset_deps :: "props \<Rightarrow> event \<Rightarrow> bool" where
  "keeps_reset_deps pr (Render pr') = (reset_deps pr' = reset_deps pr)"
| "keeps_reset_deps pr e = True"

section \<open>The slideshow driver\<close>

text \<open>\<open>list[index % Math.max(list.length, 1)]\<close>; reading an empty list gives \<open>undefined\<close>.\<close>

definition current :: "'a list \<Rightarrow> nat \<Rightarrow> 'a option" where
  "current xs i =
     (let k = i mod max (length xs) 1 in if k < length xs then Some (xs ! k) else None)"

text \<open>
  \<open>next\<close> and \<open>prev\<close> are built anew in every render and close over the \<open>list\<close> of
  that render: \<open>next_of xs\<close> is the index update of the \<open>next\<close> of a render whose list
  is \<open>xs\<close>.
\<close>

definition next_of :: "'a list \<Rightarrow> nat \<Rightarrow> nat" where
  "next_of xs i = (i + 1) mod max (length xs) 1"

definition prev_of :: "'a list \<Rightarrow> nat \<Rightarrow> nat" where
  "prev_of xs i =
     nat ((int i - 1 + int (max (length xs) 1)) mod int (max (length xs) 1))"

text \<open>
  A pending dwell timeout: its delay in milliseconds, and the list of the render that
  armed it, which is the list its callback advances by. It fires once.
\<close>

record pending =
  delay :: real
  closed_list :: "camera list"

text \<open>
  The slideshow: the props \<open>list\<close> and \<open>dwellSec\<close> of the latest render, the two state
  hooks, and the timeout that is pending, if any.
\<close>

record slideshow =
  shown :: "camera list"
  dwellSec :: real
  index :: nat
  playing :: bool
  dwellTimer :: "pending option"

text \<open>The dependency list of the dwell effect: \<open>[playing, index, dwellSec, current?.id]\<close>.\<close>

definition dwell_deps :: "slideshow \<Rightarrow> bool \<times> nat \<times> real \<times> string option" where
  "dwell_deps s =
     (playing s, index s, dwellSec s, map_option cam_id (current (shown s) (index s)))"

text \<open>The body of the dwell effect: what is pending once it has run.\<close>

definition dwell_body :: "slideshow \<Rightarrow> pending option" where
  "dwell_body s =
     (if \<not> playing s \<or> current (shown s) (index s) = None then None
      else Some \<lparr>delay = max 3 (dwellSec s) * 1000, closed_list = shown s\<rparr>)"

text \<open>
  After a render, the dwell effect runs only when one of its dependencies differs from
  the render before; its cleanup clears the timeout of the earlier run.
\<close>

definition dwell_effect :: "slideshow \<Rightarrow> slideshow \<Rightarrow> slideshow" where
  "dwell_effect earlier s =
     (if dwell_deps s = dwell_deps earlier then s else s\<lparr>dwellTimer := dwell_body s\<rparr>)"

text \<open>
  A render of \<open>s\<close> after a render of \<open>earlier\<close>, with its effects: the effect on
  \<open>[list.length]\<close> sets the index to 0, which is one more render when the index was not 0.
\<close>

definition commit :: "slideshow \<Rightarrow> slideshow \<Rightarrow> slideshow" where
  "commit earlier s =
     (let s1 = dwell_effect earlier s
      in if length (shown s) \<noteq> length (shown earlier)
         then dwell_effect s1 (s1\<lparr>index := 0\<rparr>)
         else s1)"

text \<open>The first render: the state hooks at their initial values, and every effect runs.\<close>

definition mount :: "camera list \<Rightarrow> real \<Rightarrow> bool \<Rightarrow> slideshow" where
  "mount xs d autoplay =
     (let s = \<lparr>shown = xs, dwellSec = d, index = 0, playing = autoplay, dwellTimer = None\<rparr>
      in s\<lparr>dwellTimer := dwell_body s\<rparr>)"

text \<open>
  What happens to a mounted slideshow: the pending timeout fires, a button is clicked, or
  the parent renders it with a new list or dwell time. A state update that changes
  nothing causes no render, so no effect runs after it.
\<close>

datatype slide_event = DwellFires | ClickNext | ClickPrev | ClickPlayPause | NewProps "camera list" real

fun slide_step :: "slideshow \<Rightarrow> slide_event \<Rightarrow> slideshow" where
  "slide_step s DwellFires =
     (case dwellTimer s of
        None \<Rightarrow> s
      | Some t \<Rightarrow> commit s (s\<lparr>index := next_of (closed_list t) (index s), dwellTimer := None\<rparr>))"
| "slide_step s ClickNext = commit s (s\<lparr>index := next_of (shown s) (index s)\<rparr>)"
| "slide_step s ClickPrev = commit s (s\<lparr>index := prev_of (shown s) (index s)\<rparr>)"
| "slide_step s ClickPlayPause = commit s (s\<lparr>playing := \<not> playing s\<rparr>)"
| "slide_step s (NewProps xs d) = commit s (s\<lparr>shown := xs, dwellSec := d\<rparr>)"

subsection \<open>Shuffling\<close>

text \<open>
  The loop of \<open>useShuffle\<close> runs \<open>i\<close> from the last index down to 1. \<open>rnd i\<close> is the
  number \<open>Math.random()\<close> returns in the iteration for index \<open>i\<close>; the platform
  promises \<open>0 \<le> rnd i < 1\<close>, which keeps \<open>j\<close> within \<open>0..i\<close>.
\<close>

fun shuffle_loop :: "(nat \<Rightarrow> real) \<Rightarrow> nat \<Rightarrow> 'a list \<Rightarrow> 'a list" where
  "shuffle_loop rnd 0 arr = arr"
| "shuffle_loop rnd (Suc k) arr =
     (let i = Suc k;
          j = nat \<lfloor>rnd i * real (i + 1)\<rfloor>
      in shuffle_loop rnd k (arr[i := arr ! j, j := arr ! i]))"

definition useShuffle :: "(nat \<Rightarrow> real) \<Rightarrow> 'a list \<Rightarrow> bool \<Rightarrow> 'a list" where
  "useShuffle rnd xs enabled =
     (if \<not> enabled then xs else shuffle_loop rnd (length xs - 1) xs)"

section \<open>The feed loader\<close>

subsection \<open>Normalising one row\<close>

definition truthy :: "jsval option \<Rightarrow> bool" where
  "truthy v =
     (case v of
        None \<Rightarrow> False
      | Some JNull \<Rightarrow> False
      | Some (JStr s) \<Rightarrow> s \<noteq> ''''
      | Some (JNum x) \<Rightarrow> x \<noteq> 0)"

text \<open>\<open>a || b || ... || ""\<close>: the first truthy value, else the empty string.\<close>

fun first_or_empty :: "jsval option list \<Rightarrow> jsval" where
  "first_or_empty [] = JStr ''''"
| "first_or_empty (v # vs) =
     (case v of
        None \<Rightarrow> first_or_empty vs
      | Some x \<Rightarrow> if truthy v then x else first_or_empty vs)"

text \<open>
  \<open>String(v)\<close>. How the platform prints a number is the parameter \<open>numstr\<close>.
\<close>

definition String_of :: "(real \<Rightarrow> string) \<Rightarrow> jsval \<Rightarrow> string" where
  "String_of numstr v = (case v of JStr s \<Rightarrow> s | JNum x \<Rightarrow> numstr x | JNull \<Rightarrow> ''null'')"

text \<open>\<open>v.trim()\<close>: only a string has the method; on anything else the call throws.\<close>

definition trim_call :: "jsval \<Rightarrow> string option" where
  "trim_call v = (case v of JStr s \<Rightarrow> Some (trim s) | JNum x \<Rightarrow> None | JNull \<Rightarrow> None)"

text \<open>\<open>v.trim?.() || ""\<close>: a value without the method gives the empty string.\<close>

definition trim_optional :: "jsval \<Rightarrow> string" where
  "trim_optional v = (case v of JStr s \<Rightarrow> trim s | JNum x \<Rightarrow> '''' | JNull \<Rightarrow> '''')"

text \<open>\<open>None\<close> is the TypeError of a \<open>trim\<close> call on a number.\<close>

definition normalizeCamera :: "(real \<Rightarrow> string) \<Rightarrow> row \<Rightarrow> camera option" where
  "normalizeCamera numstr r = do {
     fr \<leftarrow> trim_call (first_or_empty [r ''DescriptionLocalisationFr'']);
     en \<leftarrow> trim_call (first_or_empty [r ''DescriptionLocalisationEn'']);
     sn \<leftarrow> trim_call (first_or_empty [r ''DateDebutDiffusion'']);
     rg \<leftarrow> trim_call (first_or_empty [r ''NomRegionDiffusion'']);
     bo \<leftarrow> trim_call (first_or_empty [r ''NomPosteFrontalier'']);
     br \<leftarrow> trim_call (first_or_empty [r ''NomPontFrontalier'']);
     ur \<leftarrow> trim_call (first_or_empty [r ''URL_FLUX_DONNEE'', r ''url_flux_donnee'', r ''url'']);
     Some \<lparr>cam_id = String_of numstr (first_or_empty [r ''IDEcamera'', r ''idecamera'', r ''id'']),
           number = String_of numstr (first_or_empty [r ''NumeroCamera'', r ''numerocamera'']),
           nameFr = fr,
           nameEn = en,
           since = sn,
           route = trim (String_of numstr (first_or_empty [r ''NumeroRoute''])),
           region = rg,
           border = bo,
           bridge = br,
           url = ur,
           imgDirect = trim_optional (first_or_empty [r ''url-image-en-direct'', r ''url_image_en_direct'']),
           lat = r ''lat'',
           lon = r ''lon''\<rparr>
   }"

subsection \<open>The two endpoints\<close>

text \<open>A feature of the collection: its properties, and the coordinates of its geometry.\<close>

record feature =
  properties :: "row option"
  coordinates :: "real list option"

definition nth_opt :: "'a list \<Rightarrow> nat \<Rightarrow> 'a option" where
  "nth_opt xs i = (if i < length xs then Some (xs ! i) else None)"

text \<open>The object \<open>{ ...p, lat, lon }\<close> handed to \<open>normalizeCamera\<close>.\<close>

definition feature_row :: "feature \<Rightarrow> row" where
  "feature_row f =
     (let p = (case properties f of None \<Rightarrow> Map.empty | Some q \<Rightarrow> q);
          cs = (case coordinates f of None \<Rightarrow> [] | Some ds \<Rightarrow> ds)
      in p(''lat'' := map_option JNum (nth_opt cs 1), ''lon'' := map_option JNum (nth_opt cs 0)))"

text \<open>
  What the network answers. A reply \<open>None\<close> is a rejected \<open>fetch\<close> (a network error).
  The body of the first reply either fails to parse as JSON or is an object, with or
  without a \<open>features\<close> array; the text of the second may fail to read.
\<close>

datatype geo_body = Unparseable | Collection "feature list option"

record geo_response =
  geo_ok :: bool
  geo_body :: geo_body

record csv_response =
  csv_ok :: bool
  csv_status :: nat
  csv_text :: "string option"

record network =
  geojson_reply :: "geo_response option"
  csv_reply :: "csv_response option"

text \<open>The options handed to the CSV library, which is a parameter of the loader.\<close>

record papa_config =
  header :: bool
  skipEmptyLines :: bool

type_synonym papa = "string \<Rightarrow> papa_config \<Rightarrow> row list"

record feed_state =
  cameras :: "camera list"
  regions :: "string list"
  loading :: bool
  error :: string

definition useCameras_initial :: feed_state where
  "useCameras_initial = \<lparr>cameras = [], regions = [], loading = True, error = ''''\<rparr>"

text \<open>\<open>Array.from(new Set(xs))\<close>: the first occurrence of each value, in order.\<close>

definition dedupe :: "'a list \<Rightarrow> 'a list" where
  "dedupe xs = foldl (\<lambda>acc x. if x \<in> set acc then acc else acc @ [x]) [] xs"

text \<open>The default \<open>sort()\<close> orders strings by their code units.\<close>

definition regions_of :: "camera list \<Rightarrow> string list" where
  "regions_of items = sort (dedupe (map region items))"

definition loaded :: "bool \<Rightarrow> camera list \<Rightarrow> feed_state \<Rightarrow> feed_state" where
  "loaded cancelled items s =
     (if \<not> cancelled
      then s\<lparr>cameras := items, regions := regions_of items, loading := False\<rparr>
      else s)"

definition failed :: "bool \<Rightarrow> feed_state \<Rightarrow> feed_state" where
  "failed cancelled s =
     (if \<not> cancelled
      then s\<lparr>error := ''Failed to load cameras (maybe CORS). Try a dev proxy or build-time fetch.'',
             loading := False\<rparr>
      else s)"

datatype endpoint = Geojson | Csv

text \<open>
  \<open>load\<close> returns the endpoints it requested, in order, and the state of the hook when
  it ends. Every exception inside the \<open>try\<close> block ends in the one \<open>catch\<close>.
\<close>

definition load :: "(real \<Rightarrow> string) \<Rightarrow> papa \<Rightarrow> network \<Rightarrow> bool \<Rightarrow> feed_state \<Rightarrow> endpoint list \<times> feed_state" where
  "load numstr Papa_parse net cancelled s0 =
     (let s = s0\<lparr>loading := True, error := ''''\<rparr> in
      case geojson_reply net of
        None \<Rightarrow> ([Geojson], failed cancelled s)
      | Some gjRes \<Rightarrow>
          if geo_ok gjRes then
            (case geo_body gjRes of
               Unparseable \<Rightarrow> ([Geojson], failed cancelled s)
             | Collection fs \<Rightarrow>
                 (case those (map (\<lambda>f. normalizeCamera numstr (feature_row f))
                                (case fs of None \<Rightarrow> [] | Some gs \<Rightarrow> gs)) of
                    None \<Rightarrow> ([Geojson], failed cancelled s)
                  | Some items \<Rightarrow> ([Geojson], loaded cancelled items s)))
          else
            (case csv_reply net of
               None \<Rightarrow> ([Geojson, Csv], failed cancelled s)
             | Some res \<Rightarrow>
                 if \<not> csv_ok res then ([Geojson, Csv], failed cancelled s)
                 else
                   (case csv_text res of
                      None \<Rightarrow> ([Geojson, Csv], failed cancelled s)
                    | Some text \<Rightarrow>
                        (case those (map (normalizeCamera numstr)
                                       (Papa_parse text \<lparr>header = True, skipEmptyLines = True\<rparr>)) of
                           None \<Rightarrow> ([Geojson, Csv], failed cancelled s)
                         | Some items \<Rightarrow> ([Geojson, Csv], loaded cancelled items s)))))"

section \<open>Filtering\<close>

definition filtered :: "camera list \<Rightarrow> string \<Rightarrow> string \<Rightarrow> camera list" where
  "filtered cams rgn query =
     (let q = toLowerCase (trim query) in
      filter (\<lambda>c.
          let inRegion = (rgn = '''' \<or> region c = rgn);
              hay = toLowerCase (nameEn c @ '' '' @ nameFr c @ '' '' @ route c @ '' '' @ region c
                                 @ '' '' @ bridge c @ '' '' @ border c);
              match = (q = '''' \<or> includes_str hay q)
          in inRegion \<and> match \<and> url c \<noteq> '''')
        cams)"

section \<open>Worked inputs\<close>

definition origin_prod :: string where
  "origin_prod = ''https://www.quebec511.info''"

definition cam42 :: camera where
  "cam42 = \<lparr>cam_id = ''3012'', number = ''12'', nameFr = ''Autoroute 50 a Gatineau'',
     nameEn = ''Highway 50 at Gatineau'', since = '''', route = ''50'', region = ''Outaouais'',
     border = '''', bridge = '''',
     url = ''https://www.quebec511.info/Carte/Fenetres/camera.ashx?id=42'',
     imgDirect = '''', lat = None, lon = None\<rparr>"

definition cam43 :: camera where
  "cam43 = cam42\<lparr>cam_id := ''3013'',
     url := ''https://www.quebec511.info/Carte/Fenetres/camera.ashx?id=43''\<rparr>"

definition cam44 :: camera where
  "cam44 = cam42\<lparr>cam_id := ''3014'',
     url := ''https://www.quebec511.info/Carte/Fenetres/camera.ashx?id=44''\<rparr>"

definition snapshot_props :: props where
  "snapshot_props = \<lparr>camera = Some cam42, live = False, refreshMs = 1500, restartSec = 5\<rparr>"

definition live_props :: props where
  "live_props = \<lparr>camera = Some cam42, live = True, refreshMs = 1500, restartSec = 5\<rparr>"

definition next_live_props :: props where
  "next_live_props = \<lparr>camera = Some cam43, live = True, refreshMs = 1500, restartSec = 5\<rparr>"

definition dead_pane :: pane where
  "dead_pane = \<lparr>mode = Jpg, salt = 7, dead = True, timeInfo = \<lparr>source = '''', date = None\<rparr>\<rparr>"

text \<open>
  Stand-ins for the two library parameters of the loader, to run examples with: numbers
  that are natural print as their decimal digits, and the CSV text is unquoted, with
  commas between fields and line feeds between rows.
\<close>

definition numstr_nat :: "real \<Rightarrow> string" where
  "numstr_nat x = decimal (nat \<lfloor>x\<rfloor>)"

definition papa_lines :: papa where
  "papa_lines text cfg =
     (let ls = split_on (CHR 0x0A) text;
          ks = (if skipEmptyLines cfg then filter (\<lambda>l. l \<noteq> []) ls else ls)
      in case ks of
           [] \<Rightarrow> []
         | h # rest \<Rightarrow>
             if header cfg
             then map (\<lambda>l. map_of (zip (split_on CHR '','' h) (map JStr (split_on CHR '','' l)))) rest
             else [])"

definition feature_no_id :: feature where
  "feature_no_id =
     \<lparr>properties = Some (map_of
        [(''IDEcamera'', JNum 3012),
         (''DescriptionLocalisationEn'', JStr ''Highway 50 at Gatineau''),
         (''NomRegionDiffusion'', JStr ''Outaouais''),
         (''URL_FLUX_DONNEE'', JStr ''https://www.quebec511.info/Carte/Fenetres/camera.ashx'')]),
      coordinates = Some [-75, 45]\<rparr>"

definition feature_bare :: feature where
  "feature_bare = \<lparr>properties = None, coordinates = None\<rparr>"

definition cam_no_id :: camera where
  "cam_no_id = \<lparr>cam_id = ''3012'', number = '''', nameFr = '''',
     nameEn = ''Highway 50 at Gatineau'', since = '''', route = '''', region = ''Outaouais'',
     border = '''', bridge = '''',
     url = ''https://www.quebec511.info/Carte/Fenetres/camera.ashx'',
     imgDirect = '''', lat = Some (JNum 45), lon = Some (JNum (-75))\<rparr>"

definition csv_healthy :: csv_response where
  "csv_healthy = \<lparr>csv_ok = True, csv_status = 200,
     csv_text = Some (''IDEcamera,NomRegionDiffusion,URL_FLUX_DONNEE'' @ [CHR 0x0A] @ [CHR 0x0A]
        @ ''3012,Outaouais,https://www.quebec511.info/Carte/Fenetres/camera.ashx?id=42'' @ [CHR 0x0A])\<rparr>"

definition cam_csv :: camera where
  "cam_csv = \<lparr>cam_id = ''3012'', number = '''', nameFr = '''', nameEn = '''', since = '''',
     route = '''', region = ''Outaouais'', border = '''', bridge = '''',
     url = ''https://www.quebec511.info/Carte/Fenetres/camera.ashx?id=42'',
     imgDirect = '''', lat = None, lon = None\<rparr>"

definition net_geo_ok :: network where
  "net_geo_ok = \<lparr>geojson_reply = Some \<lparr>geo_ok = True, geo_body = Collection (Some [feature_no_id, feature_bare])\<rparr>,
                  csv_reply = Some csv_healthy\<rparr>"

definition net_primary_down :: network where
  "net_primary_down = \<lparr>geojson_reply = None, csv_reply = Some csv_healthy\<rparr>"

definition net_primary_malformed :: network where
  "net_primary_malformed = \<lparr>geojson_reply = Some \<lparr>geo_ok = True, geo_body = Unparseable\<rparr>,
                             csv_reply = Some csv_healthy\<rparr>"

definition net_primary_503 :: network where
  "net_primary_503 = \<lparr>geojson_reply = Some \<lparr>geo_ok = False, geo_body = Unparseable\<rparr>,
                       csv_reply = Some csv_healthy\<rparr>"

section \<open>Properties of the media URLs\<close>

lemma withSalt_nonempty:
  "u \<noteq> [] \<Longrightarrow>
   withSalt n u = u @ (if CHR ''?'' \<in> set u then ''&'' else ''?'') @ ''_rs='' @ decimal n"
  by (simp add: withSalt_def)

lemma withSalt_trailing: "u \<noteq> [] \<Longrightarrow> has_trailing_salt n (withSalt n u)"
  by (simp add: withSalt_def has_trailing_salt_def suffix_def)

lemma buildVariants_Some:
  assumes "extractIdFromFenetre U (url c) = ident" and "ident \<noteq> []"
  shows "buildVariants U ORIGIN (Some c) n =
    Some \<lparr>v_id = ident,
          snap = withSalt n (if imgDirect c \<noteq> [] then imgDirect c
                             else ORIGIN @ ''/Images/Cameras/Quebec/cam/'' @ ident @ ''.jpg''),
          jpg = withSalt n (ORIGIN @ ''/Carte/Fenetres/camera.ashx?id='' @ ident @ ''&format=jpg''),
          m3u8 = withSalt n (ORIGIN @ ''/Carte/Fenetres/camera.ashx?id='' @ ident @ ''&format=m3u8''),
          html = withSalt n (url c)\<rparr>"
  using assms by (simp add: buildVariants_def Let_def)

lemma takeWhile_stop:
  "(\<And>x. x \<in> set xs \<Longrightarrow> P x) \<Longrightarrow> \<not> P y \<Longrightarrow> takeWhile P (xs @ y # ys) = xs"
  by (simp add: takeWhile_append2)

lemma final_segment_of_path:
  assumes "CHR ''?'' \<notin> set a" "CHR ''#'' \<notin> set a"
    and "CHR ''?'' \<notin> set b" "CHR ''#'' \<notin> set b" "CHR ''/'' \<notin> set b"
  shows "final_path_segment (a @ ''/'' @ b @ ''?'' @ r) = b"
proof -
  have "path_part ((a @ ''/'' @ b) @ CHR ''?'' # r) = a @ ''/'' @ b"
    unfolding path_part_def using assms by (intro takeWhile_stop) auto
  then have p: "path_part (a @ ''/'' @ b @ ''?'' @ r) = a @ ''/'' @ b" by simp
  have "takeWhile (\<lambda>c. c \<noteq> CHR ''/'') (rev b @ CHR ''/'' # rev a) = rev b"
    using assms by (intro takeWhile_stop) auto
  with p show ?thesis by (simp add: final_path_segment_def)
qed

lemma variant_urls:
  assumes "extractIdFromFenetre U (url c) = ident" and "ident \<noteq> ''''" and "url c \<noteq> ''''"
  shows "\<exists>v. buildVariants U ORIGIN (Some c) n = Some v
     \<and> snap v = (if imgDirect c \<noteq> '''' then imgDirect c
                  else ORIGIN @ ''/Images/Cameras/Quebec/cam/'' @ ident @ ''.jpg'')
                @ (if CHR ''?'' \<in> set (if imgDirect c \<noteq> '''' then imgDirect c
                                         else ORIGIN @ ''/Images/Cameras/Quebec/cam/'' @ ident @ ''.jpg'')
                   then ''&'' else ''?'')
                @ ''_rs='' @ decimal n
     \<and> jpg v = ORIGIN @ ''/Carte/Fenetres/camera.ashx?id='' @ ident @ ''&format=jpg&_rs='' @ decimal n
     \<and> m3u8 v = ORIGIN @ ''/Carte/Fenetres/camera.ashx?id='' @ ident @ ''&format=m3u8&_rs='' @ decimal n
     \<and> html v = url c @ (if CHR ''?'' \<in> set (url c) then ''&'' else ''?'') @ ''_rs='' @ decimal n
     \<and> list_all (has_trailing_salt n) (urls_of v)
     \<and> (imgDirect c = '''' \<and> CHR ''/'' \<notin> set ident \<and> CHR ''?'' \<notin> set (ORIGIN @ ident)
          \<and> CHR ''#'' \<notin> set (ORIGIN @ ident) \<longrightarrow>
        snap v = ORIGIN @ ''/Images/Cameras/Quebec/cam/'' @ ident @ ''.jpg?_rs='' @ decimal n
        \<and> final_path_segment (snap v) = ident @ ''.jpg'')"
proof -
  let ?P = "if imgDirect c \<noteq> '''' then imgDirect c
            else ORIGIN @ ''/Images/Cameras/Quebec/cam/'' @ ident @ ''.jpg''"
  let ?v = "\<lparr>v_id = ident, snap = withSalt n ?P,
          jpg = withSalt n (ORIGIN @ ''/Carte/Fenetres/camera.ashx?id='' @ ident @ ''&format=jpg''),
          m3u8 = withSalt n (ORIGIN @ ''/Carte/Fenetres/camera.ashx?id='' @ ident @ ''&format=m3u8''),
          html = withSalt n (url c)\<rparr>"
  have bv: "buildVariants U ORIGIN (Some c) n = Some ?v"
    using assms(1,2) by (rule buildVariants_Some)
  have ne: "?P \<noteq> []" by simp
  have s: "snap ?v = ?P @ (if CHR ''?'' \<in> set ?P then ''&'' else ''?'') @ ''_rs='' @ decimal n"
    using withSalt_nonempty [OF ne] by simp
  have j: "jpg ?v = ORIGIN @ ''/Carte/Fenetres/camera.ashx?id='' @ ident @ ''&format=jpg&_rs='' @ decimal n"
    by (simp add: withSalt_def)
  have m: "m3u8 ?v = ORIGIN @ ''/Carte/Fenetres/camera.ashx?id='' @ ident @ ''&format=m3u8&_rs='' @ decimal n"
    by (simp add: withSalt_def)
  have h: "html ?v = url c @ (if CHR ''?'' \<in> set (url c) then ''&'' else ''?'') @ ''_rs='' @ decimal n"
    using assms(3) by (simp add: withSalt_def)
  have t: "list_all (has_trailing_salt n) (urls_of ?v)"
    using assms(3) ne by (simp add: urls_of_def withSalt_trailing del: append_is_Nil_conv)
  have f: "snap ?v = ORIGIN @ ''/Images/Cameras/Quebec/cam/'' @ ident @ ''.jpg?_rs='' @ decimal n
        \<and> final_path_segment (snap ?v) = ident @ ''.jpg''"
    if c: "imgDirect c = '''' \<and> CHR ''/'' \<notin> set ident \<and> CHR ''?'' \<notin> set (ORIGIN @ ident)
          \<and> CHR ''#'' \<notin> set (ORIGIN @ ident)"
  proof -
    from c have e: "snap ?v = ORIGIN @ ''/Images/Cameras/Quebec/cam/'' @ ident @ ''.jpg?_rs='' @ decimal n"
      by (simp add: withSalt_def)
    have "final_path_segment ((ORIGIN @ ''/Images/Cameras/Quebec/cam'') @ ''/'' @ (ident @ ''.jpg'')
            @ ''?'' @ (''_rs='' @ decimal n)) = ident @ ''.jpg''"
      using c by (intro final_segment_of_path) auto
    with e show ?thesis by simp
  qed
  show ?thesis
    apply (rule exI [of _ ?v])
    using bv s j m h t f by blast
qed

lemma digits_are_plain:
  assumes "list_all is_digit ident"
  shows "CHR ''/'' \<notin> set ident \<and> CHR ''?'' \<notin> set ident \<and> CHR ''#'' \<notin> set ident"
proof -
  have "\<not> is_digit CHR ''/''" "\<not> is_digit CHR ''?''" "\<not> is_digit CHR ''#''"
    by (simp_all add: is_digit_def)
  with assms show ?thesis by (auto simp add: list_all_iff)
qed

text \<open>
  C2. Take a camera whose viewer URL yields a numeric id \<open>ident\<close>, and any salt \<open>n\<close>; the
  origin is free of \<open>?\<close> and \<open>#\<close>. The camera has a variant set. Without a direct image
  URL its primary snapshot URL is \<open>ORIGIN/Images/Cameras/Quebec/cam/ident.jpg?_rs=n\<close>:
  the final path segment is \<open>ident.jpg\<close>, which contains the id, and the URL ends with the
  parameter \<open>_rs=n\<close>. With a direct image URL, that URL is used instead of the constructed
  path. Each of the four URLs is its unsalted text, kept whole, then \<open>?\<close> (or \<open>&\<close> when
  the text already has a \<open>?\<close>), then \<open>_rs=n\<close>.
\<close>

theorem snapshot_urls_carry_id_and_salt:
  assumes "extractIdFromFenetre U (url c) = ident" and "ident \<noteq> ''''"
    and "list_all is_digit ident" and "url c \<noteq> ''''"
    and "CHR ''?'' \<notin> set ORIGIN" and "CHR ''#'' \<notin> set ORIGIN"
  shows "\<exists>v. buildVariants U ORIGIN (Some c) n = Some v
     \<and> (imgDirect c = '''' \<longrightarrow>
          snap v = ORIGIN @ ''/Images/Cameras/Quebec/cam/'' @ ident @ ''.jpg?_rs='' @ decimal n
          \<and> final_path_segment (snap v) = ident @ ''.jpg''
          \<and> sublist ident (final_path_segment (snap v))
          \<and> suffix (''?_rs='' @ decimal n) (snap v))
     \<and> (imgDirect c \<noteq> '''' \<longrightarrow>
          snap v = imgDirect c @ (if CHR ''?'' \<in> set (imgDirect c) then ''&'' else ''?'')
                   @ ''_rs='' @ decimal n)
     \<and> jpg v = ORIGIN @ ''/Carte/Fenetres/camera.ashx?id='' @ ident @ ''&format=jpg&_rs='' @ decimal n
     \<and> m3u8 v = ORIGIN @ ''/Carte/Fenetres/camera.ashx?id='' @ ident @ ''&format=m3u8&_rs='' @ decimal n
     \<and> html v = url c @ (if CHR ''?'' \<in> set (url c) then ''&'' else ''?'') @ ''_rs='' @ decimal n
     \<and> list_all (has_trailing_salt n) (urls_of v)"
proof -
  from variant_urls [OF assms(1,2,4), of ORIGIN n] obtain v where
    bv: "buildVariants U ORIGIN (Some c) n = Some v"
    and s: "snap v = (if imgDirect c \<noteq> '''' then imgDirect c
                  else ORIGIN @ ''/Images/Cameras/Quebec/cam/'' @ ident @ ''.jpg'')
                @ (if CHR ''?'' \<in> set (if imgDirect c \<noteq> '''' then imgDirect c
                                         else ORIGIN @ ''/Images/Cameras/Quebec/cam/'' @ ident @ ''.jpg'')
                   then ''&'' else ''?'')
                @ ''_rs='' @ decimal n"
    and j: "jpg v = ORIGIN @ ''/Carte/Fenetres/camera.ashx?id='' @ ident @ ''&format=jpg&_rs='' @ decimal n"
    and m: "m3u8 v = ORIGIN @ ''/Carte/Fenetres/camera.ashx?id='' @ ident @ ''&format=m3u8&_rs='' @ decimal n"
    and h: "html v = url c @ (if CHR ''?'' \<in> set (url c) then ''&'' else ''?'') @ ''_rs='' @ decimal n"
    and t: "list_all (has_trailing_salt n) (urls_of v)"
    and f: "imgDirect c = '''' \<and> CHR ''/'' \<notin> set ident \<and> CHR ''?'' \<notin> set (ORIGIN @ ident)
          \<and> CHR ''#'' \<notin> set (ORIGIN @ ident) \<longrightarrow>
        snap v = ORIGIN @ ''/Images/Cameras/Quebec/cam/'' @ ident @ ''.jpg?_rs='' @ decimal n
        \<and> final_path_segment (snap v) = ident @ ''.jpg''"
    by blast
  have a: "snap v = ORIGIN @ ''/Images/Cameras/Quebec/cam/'' @ ident @ ''.jpg?_rs='' @ decimal n
          \<and> final_path_segment (snap v) = ident @ ''.jpg''
          \<and> sublist ident (final_path_segment (snap v))
          \<and> suffix (''?_rs='' @ decimal n) (snap v)"
    if g: "imgDirect c = ''''"
  proof -
    from digits_are_plain [OF assms(3)] assms(5,6) g f
    have e: "snap v = ORIGIN @ ''/Images/Cameras/Quebec/cam/'' @ ident @ ''.jpg?_rs='' @ decimal n"
      and p: "final_path_segment (snap v) = ident @ ''.jpg''"
      by auto
    have "sublist ident (ident @ ''.jpg'')" by (rule prefix_imp_sublist) simp
    moreover have "suffix (''?_rs='' @ decimal n) (snap v)"
      unfolding e by (simp add: suffix_def)
    ultimately show ?thesis using e p by simp
  qed
  have b: "snap v = imgDirect c @ (if CHR ''?'' \<in> set (imgDirect c) then ''&'' else ''?'')
                   @ ''_rs='' @ decimal n"
    if "imgDirect c \<noteq> ''''"
    using s that by simp
  show ?thesis
    apply (rule exI [of _ v])
    using bv a b j m h t by blast
qed

text \<open>
  The scenario of the specification: the viewer URL ends in \<open>camera.ashx?id=42\<close>, there
  is no direct image URL; the salt is 0, then 1 after one refresh tick.
\<close>

theorem snapshot_urls_carry_id_and_salt_witness:
  "extractIdFromFenetre URL_std (url cam42) = ''42'' \<and> list_all is_digit ''42''
   \<and> url cam42 \<noteq> '''' \<and> imgDirect cam42 = ''''
   \<and> CHR ''?'' \<notin> set origin_prod \<and> CHR ''#'' \<notin> set origin_prod
   \<and> map_option snap (buildVariants URL_std origin_prod (Some cam42) 0)
       = Some ''https://www.quebec511.info/Images/Cameras/Quebec/cam/42.jpg?_rs=0''
   \<and> map_option snap (buildVariants URL_std origin_prod (Some cam42) 1)
       = Some ''https://www.quebec511.info/Images/Cameras/Quebec/cam/42.jpg?_rs=1''
   \<and> map_option (final_path_segment \<circ> snap) (buildVariants URL_std origin_prod (Some cam42) 1)
       = Some ''42.jpg''"
proof -
  have i: "extractIdFromFenetre URL_std (url cam42) = ''42''" by code_simp
  have d0: "decimal 0 = ''0''" and d1: "decimal 1 = ''1''" by code_simp+
  have u: "url cam42 \<noteq> ''''" and g: "imgDirect cam42 = ''''" by (simp_all add: cam42_def)
  have q: "''42'' \<noteq> ''''" by simp
  have n: "list_all is_digit ''42''" by (simp add: is_digit_def)
  have o1: "CHR ''?'' \<notin> set origin_prod" and o2: "CHR ''#'' \<notin> set origin_prod"
    by (simp_all add: origin_prod_def)
  from snapshot_urls_carry_id_and_salt [OF i q n u o1 o2, of 0] g d0
  have a: "map_option snap (buildVariants URL_std origin_prod (Some cam42) 0)
       = Some ''https://www.quebec511.info/Images/Cameras/Quebec/cam/42.jpg?_rs=0''"
    by (auto simp add: origin_prod_def)
  from snapshot_urls_carry_id_and_salt [OF i q n u o1 o2, of 1] g d1
  have b: "map_option snap (buildVariants URL_std origin_prod (Some cam42) 1)
       = Some ''https://www.quebec511.info/Images/Cameras/Quebec/cam/42.jpg?_rs=1''
     \<and> map_option (final_path_segment \<circ> snap) (buildVariants URL_std origin_prod (Some cam42) 1)
       = Some ''42.jpg''"
    by (auto simp add: origin_prod_def)
  from i n u g o1 o2 a b show ?thesis by simp
qed

section \<open>Properties of the playback state\<close>

lemma unavailable_pane_kept:
  assumes "status_of pr q = UNAVAILABLE" and "keeps_reset_deps pr e"
  shows "snd (step U ORIGIN (pr, q) e) = q"
proof (cases e)
  case ImgError
  with assms show ?thesis by (simp add: status_of_def img_rendered_def split: if_splits)
next
  case (ImgLoad t)
  with assms show ?thesis by (simp add: status_of_def img_rendered_def split: if_splits)
next
  case RefreshTick
  with assms show ?thesis by (simp add: status_of_def refresh_timer_def split: if_splits)
next
  case HlsError
  with assms show ?thesis by (auto simp add: status_of_def hls_attached_def split: if_splits)
next
  case LiveTick
  with assms show ?thesis by (auto simp add: status_of_def live_timer_def split: if_splits)
next
  case (Render pr')
  with assms show ?thesis by (simp add: rerender_def)
qed

lemma unavailable_status_kept:
  assumes "status_of pr q = UNAVAILABLE" and "keeps_reset_deps pr e"
  shows "status_of (fst (step U ORIGIN (pr, q) e)) q = UNAVAILABLE"
proof (cases e)
  case (Render pr')
  with assms show ?thesis by (simp add: status_of_def reset_deps_def split: if_splits)
qed (use assms in simp_all)

text \<open>
  C1, as amended. In snapshot-primary (mode \<open>Snap\<close>, not dead) one image load failure
  gives snapshot-alternate (mode \<open>Jpg\<close>, not dead), a second one sets the dead flag, and
  a third changes nothing; with the live toggle off these are the steps of the pane, and
  the badge then reads UNAVAILABLE. From a pane whose badge reads UNAVAILABLE, no event
  changes the pane or the badge except a render in which the camera id or the live
  toggle differs from the render before.
\<close>

theorem snapshot_failures_then_terminal:
  "(mode p = Snap \<and> \<not> dead p \<longrightarrow>
      onSnapError p = p\<lparr>mode := Jpg\<rparr> \<and>
      onSnapError (onSnapError p) = p\<lparr>mode := Jpg, dead := True\<rparr> \<and>
      onSnapError (onSnapError (onSnapError p)) = onSnapError (onSnapError p) \<and>
      (\<not> live pr \<longrightarrow>
         step U ORIGIN (pr, p) ImgError = (pr, p\<lparr>mode := Jpg\<rparr>) \<and>
         step U ORIGIN (pr, p\<lparr>mode := Jpg\<rparr>) ImgError = (pr, p\<lparr>mode := Jpg, dead := True\<rparr>) \<and>
         status_of pr (p\<lparr>mode := Jpg, dead := True\<rparr>) = UNAVAILABLE))
   \<and> (status_of pr q = UNAVAILABLE \<and> keeps_reset_deps pr e \<longrightarrow>
        snd (step U ORIGIN (pr, q) e) = q \<and>
        status_of (fst (step U ORIGIN (pr, q) e)) (snd (step U ORIGIN (pr, q) e)) = UNAVAILABLE)"
proof (intro conjI impI)
  assume a: "mode p = Snap \<and> \<not> dead p"
  then show "onSnapError p = p\<lparr>mode := Jpg\<rparr>"
    by (simp add: onSnapError_def)
  from a show "onSnapError (onSnapError p) = p\<lparr>mode := Jpg, dead := True\<rparr>"
    by (simp add: onSnapError_def)
  from a show "onSnapError (onSnapError (onSnapError p)) = onSnapError (onSnapError p)"
    by (simp add: onSnapError_def)
  assume l: "\<not> live pr"
  from a l show "step U ORIGIN (pr, p) ImgError = (pr, p\<lparr>mode := Jpg\<rparr>)"
    by (simp add: onSnapError_def img_rendered_def)
  from a l show "step U ORIGIN (pr, p\<lparr>mode := Jpg\<rparr>) ImgError = (pr, p\<lparr>mode := Jpg, dead := True\<rparr>)"
    by (simp add: onSnapError_def img_rendered_def)
  from l show "status_of pr (p\<lparr>mode := Jpg, dead := True\<rparr>) = UNAVAILABLE"
    by (simp add: status_of_def)
next
  assume b: "status_of pr q = UNAVAILABLE \<and> keeps_reset_deps pr e"
  then show "snd (step U ORIGIN (pr, q) e) = q"
    by (simp add: unavailable_pane_kept)
  with b show "status_of (fst (step U ORIGIN (pr, q) e)) (snd (step U ORIGIN (pr, q) e)) = UNAVAILABLE"
    by (simp add: unavailable_status_kept)
qed

theorem snapshot_failures_then_terminal_witness:
  "mode (initial snapshot_props) = Snap \<and> \<not> dead (initial snapshot_props) \<and> \<not> live snapshot_props
   \<and> step URL_std origin_prod (snapshot_props, initial snapshot_props) ImgError
       = (snapshot_props, (initial snapshot_props)\<lparr>mode := Jpg\<rparr>)
   \<and> step URL_std origin_prod (snapshot_props, (initial snapshot_props)\<lparr>mode := Jpg\<rparr>) ImgError
       = (snapshot_props, (initial snapshot_props)\<lparr>mode := Jpg, dead := True\<rparr>)
   \<and> status_of snapshot_props dead_pane = UNAVAILABLE
   \<and> keeps_reset_deps snapshot_props RefreshTick
   \<and> snd (step URL_std origin_prod (snapshot_props, dead_pane) RefreshTick) = dead_pane"
proof -
  have a: "mode (initial snapshot_props) = Snap \<and> \<not> dead (initial snapshot_props)"
    by (simp add: initial_def snapshot_props_def)
  have l: "\<not> live snapshot_props" by (simp add: snapshot_props_def)
  have b: "status_of snapshot_props dead_pane = UNAVAILABLE \<and> keeps_reset_deps snapshot_props RefreshTick"
    by (simp add: status_of_def snapshot_props_def dead_pane_def)
  from a l b
    snapshot_failures_then_terminal [where p = "initial snapshot_props" and pr = snapshot_props
      and U = URL_std and ORIGIN = origin_prod and q = dead_pane and e = RefreshTick]
  show ?thesis by blast
qed

text \<open>
  C1 as stated fails: the reset effect also depends on the live toggle. With the camera
  unchanged, switching the toggle on takes a pane out of UNAVAILABLE.
\<close>

theorem unavailable_left_by_live_toggle:
  "status_of snapshot_props dead_pane = UNAVAILABLE \<and>
   camera (snapshot_props\<lparr>live := True\<rparr>) = camera snapshot_props \<and>
   status_of (fst (step URL_std origin_prod (snapshot_props, dead_pane)
                 (Render (snapshot_props\<lparr>live := True\<rparr>))))
             (snd (step URL_std origin_prod (snapshot_props, dead_pane)
                 (Render (snapshot_props\<lparr>live := True\<rparr>)))) = LIVE"
  by (simp add: status_of_def snapshot_props_def dead_pane_def rerender_def reset_deps_def
      reset_effect_def)

text \<open>
  C5. A render with a camera whose id differs from the id of the camera before resets the
  pane to its initial values for the new props: mode \<open>Hls\<close> when the live toggle is on
  and \<open>Snap\<close> otherwise, salt 0, dead flag off; whatever the pane was before.
\<close>

theorem camera_switch_resets:
  assumes "camera pr' = Some c" and "map_option cam_id (camera pr) \<noteq> Some (cam_id c)"
  shows "step U ORIGIN (pr, p) (Render pr') = (pr', initial pr')
       \<and> mode (initial pr') = (if live pr' then Hls else Snap)
       \<and> salt (initial pr') = 0 \<and> \<not> dead (initial pr')"
  using assms
  by (cases "camera pr") (auto simp add: rerender_def reset_deps_def reset_effect_def initial_def)

theorem camera_switch_resets_witness:
  "camera next_live_props = Some cam43
   \<and> map_option cam_id (camera snapshot_props) \<noteq> Some (cam_id cam43)
   \<and> status_of snapshot_props dead_pane = UNAVAILABLE
   \<and> step URL_std origin_prod (snapshot_props, dead_pane) (Render next_live_props)
       = (next_live_props,
          \<lparr>mode = Hls, salt = 0, dead = False, timeInfo = \<lparr>source = '''', date = None\<rparr>\<rparr>)"
proof -
  have a: "camera next_live_props = Some cam43" by (simp add: next_live_props_def)
  have b: "map_option cam_id (camera snapshot_props) \<noteq> Some (cam_id cam43)"
    by (simp add: snapshot_props_def cam42_def cam43_def)
  have c: "status_of snapshot_props dead_pane = UNAVAILABLE"
    by (simp add: status_of_def snapshot_props_def dead_pane_def)
  have d: "initial next_live_props
       = \<lparr>mode = Hls, salt = 0, dead = False, timeInfo = \<lparr>source = '''', date = None\<rparr>\<rparr>"
    by (simp add: initial_def next_live_props_def)
  from camera_switch_resets [OF a b, of URL_std origin_prod dead_pane] a b c d
  show ?thesis by simp
qed

text \<open>
  C7. While a stream is attached (live toggle on, mode \<open>Hls\<close>, a manifest URL at hand),
  a stream error puts the pane in mode \<open>Snap\<close> with the dead flag off, and the badge
  reads SNAPSHOT: the error is shown nowhere.
\<close>

theorem stream_error_degrades_to_snapshot:
  assumes "hls_attached U ORIGIN pr p"
  shows "live pr \<and> mode p = Hls
       \<and> step U ORIGIN (pr, p) HlsError = (pr, p\<lparr>mode := Snap, dead := False\<rparr>)
       \<and> status_of pr (p\<lparr>mode := Snap, dead := False\<rparr>) = SNAPSHOT"
  using assms by (simp add: hls_attached_def onHlsError_def status_of_def)

theorem stream_error_degrades_to_snapshot_witness:
  "hls_attached URL_std origin_prod live_props (initial live_props)
   \<and> status_of live_props (initial live_props) = LIVE
   \<and> step URL_std origin_prod (live_props, initial live_props) HlsError
       = (live_props, (initial live_props)\<lparr>mode := Snap, dead := False\<rparr>)
   \<and> status_of live_props ((initial live_props)\<lparr>mode := Snap, dead := False\<rparr>) = SNAPSHOT"
proof -
  have i: "extractIdFromFenetre URL_std (url cam42) = ''42''" by code_simp
  have h: "hls_attached URL_std origin_prod live_props (initial live_props)"
    using buildVariants_Some [OF i, of origin_prod 0]
    by (simp add: hls_attached_def live_props_def initial_def withSalt_def)
  have s: "status_of live_props (initial live_props) = LIVE"
    by (simp add: status_of_def live_props_def initial_def)
  from stream_error_degrades_to_snapshot [OF h] h s show ?thesis by simp
qed

lemma variants_all_salted:
  assumes "U '''' = None" and "buildVariants U ORIGIN cam n = Some v"
  shows "list_all (has_trailing_salt n) (urls_of v)"
proof -
  let ?fen = "case cam of None \<Rightarrow> '''' | Some c \<Rightarrow> url c"
  let ?ident = "extractIdFromFenetre U ?fen"
  from assms(2) have i: "?ident \<noteq> ''''"
    by (auto simp add: buildVariants_def Let_def split: if_splits)
  with assms(1) have f: "?fen \<noteq> ''''"
    by (auto simp add: extractIdFromFenetre_def)
  from assms(2) i obtain ps where
    v: "urls_of v = [withSalt n ps,
          withSalt n (ORIGIN @ ''/Carte/Fenetres/camera.ashx?id='' @ ?ident @ ''&format=jpg''),
          withSalt n (ORIGIN @ ''/Carte/Fenetres/camera.ashx?id='' @ ?ident @ ''&format=m3u8''),
          withSalt n ?fen]" and ps: "ps \<noteq> ''''"
    by (cases cam) (auto simp add: buildVariants_def Let_def urls_of_def split: if_splits)
  show ?thesis
    unfolding v using f ps by (simp add: withSalt_trailing del: append_is_Nil_conv)
qed

text \<open>
  C8. In snapshot-primary or snapshot-alternate (not dead, mode \<open>Snap\<close> or \<open>Jpg\<close>) the
  refresh interval is installed with period \<open>max 500 refreshMs\<close>; each of its ticks adds
  one to the salt and leaves the mode and the dead flag alone; and every URL of the variant
  set built with the new salt ends in \<open>?_rs=\<close> or \<open>&_rs=\<close> and the decimal digits of the
  new salt. (The URL constructor rejects the empty string, as the platform's does.)
\<close>

theorem refresh_tick_bumps_salt:
  assumes "\<not> dead p" and "mode p = Snap \<or> mode p = Jpg" and "U '''' = None"
  shows "refresh_timer pr p = Some (max 500 (refreshMs pr))
       \<and> 500 \<le> max 500 (refreshMs pr)
       \<and> step U ORIGIN (pr, p) RefreshTick = (pr, p\<lparr>salt := salt p + 1\<rparr>)
       \<and> salt p < salt (snd (step U ORIGIN (pr, p) RefreshTick))
       \<and> mode (snd (step U ORIGIN (pr, p) RefreshTick)) = mode p
       \<and> \<not> dead (snd (step U ORIGIN (pr, p) RefreshTick))
       \<and> (\<forall>v. buildVariants U ORIGIN (camera pr) (salt (snd (step U ORIGIN (pr, p) RefreshTick))) = Some v
              \<longrightarrow> list_all (has_trailing_salt (salt p + 1)) (urls_of v))"
proof -
  from assms(1,2) have t: "refresh_timer pr p = Some (max 500 (refreshMs pr))"
    by (auto simp add: refresh_timer_def)
  then have s: "step U ORIGIN (pr, p) RefreshTick = (pr, p\<lparr>salt := salt p + 1\<rparr>)"
    by (simp add: bump_salt_def)
  have "list_all (has_trailing_salt (salt p + 1)) (urls_of v)"
    if "buildVariants U ORIGIN (camera pr) (salt p + 1) = Some v" for v
    using assms(3) that by (rule variants_all_salted)
  with t s assms(1) show ?thesis by simp
qed

theorem refresh_tick_bumps_salt_witness:
  "\<not> dead (initial snapshot_props) \<and> mode (initial snapshot_props) = Snap \<and> URL_std '''' = None
   \<and> refresh_timer (snapshot_props\<lparr>refreshMs := 100\<rparr>) (initial snapshot_props) = Some 500
   \<and> step URL_std origin_prod (snapshot_props, initial snapshot_props) RefreshTick
       = (snapshot_props, (initial snapshot_props)\<lparr>salt := 1\<rparr>)
   \<and> buildVariants URL_std origin_prod (Some cam42) 1
       = Some \<lparr>v_id = ''42'',
               snap = ''https://www.quebec511.info/Images/Cameras/Quebec/cam/42.jpg?_rs=1'',
               jpg = ''https://www.quebec511.info/Carte/Fenetres/camera.ashx?id=42&format=jpg&_rs=1'',
               m3u8 = ''https://www.quebec511.info/Carte/Fenetres/camera.ashx?id=42&format=m3u8&_rs=1'',
               html = ''https://www.quebec511.info/Carte/Fenetres/camera.ashx?id=42&_rs=1''\<rparr>
   \<and> list_all (has_trailing_salt 1)
        [''https://www.quebec511.info/Images/Cameras/Quebec/cam/42.jpg?_rs=1'',
         ''https://www.quebec511.info/Carte/Fenetres/camera.ashx?id=42&format=jpg&_rs=1'',
         ''https://www.quebec511.info/Carte/Fenetres/camera.ashx?id=42&format=m3u8&_rs=1'',
         ''https://www.quebec511.info/Carte/Fenetres/camera.ashx?id=42&_rs=1'']"
proof -
  have a: "\<not> dead (initial snapshot_props)" and b: "mode (initial snapshot_props) = Snap"
    and s0: "salt (initial snapshot_props) = 0" and c: "camera snapshot_props = Some cam42"
    by (simp_all add: initial_def snapshot_props_def)
  have u: "URL_std '''' = None" by code_simp
  have r: "refresh_timer (snapshot_props\<lparr>refreshMs := 100\<rparr>) (initial snapshot_props) = Some 500"
    by (simp add: refresh_timer_def initial_def snapshot_props_def)
  have v: "buildVariants URL_std origin_prod (Some cam42) 1
       = Some \<lparr>v_id = ''42'',
               snap = ''https://www.quebec511.info/Images/Cameras/Quebec/cam/42.jpg?_rs=1'',
               jpg = ''https://www.quebec511.info/Carte/Fenetres/camera.ashx?id=42&format=jpg&_rs=1'',
               m3u8 = ''https://www.quebec511.info/Carte/Fenetres/camera.ashx?id=42&format=m3u8&_rs=1'',
               html = ''https://www.quebec511.info/Carte/Fenetres/camera.ashx?id=42&_rs=1''\<rparr>"
    by code_simp
  from refresh_tick_bumps_salt [where p = "initial snapshot_props" and pr = snapshot_props
      and U = URL_std and ORIGIN = origin_prod, OF a _ u] b
  have t: "step URL_std origin_prod (snapshot_props, initial snapshot_props) RefreshTick
             = (snapshot_props, (initial snapshot_props)\<lparr>salt := salt (initial snapshot_props) + 1\<rparr>)"
    and w: "\<And>v. buildVariants URL_std origin_prod (camera snapshot_props)
                (salt (snd (step URL_std origin_prod (snapshot_props, initial snapshot_props) RefreshTick))) = Some v
              \<Longrightarrow> list_all (has_trailing_salt (salt (initial snapshot_props) + 1)) (urls_of v)"
    by blast+
  from t s0 have t': "step URL_std origin_prod (snapshot_props, initial snapshot_props) RefreshTick
       = (snapshot_props, (initial snapshot_props)\<lparr>salt := 1\<rparr>)" by simp
  from w [unfolded t' c] v s0 have l: "list_all (has_trailing_salt 1)
        [''https://www.quebec511.info/Images/Cameras/Quebec/cam/42.jpg?_rs=1'',
         ''https://www.quebec511.info/Carte/Fenetres/camera.ashx?id=42&format=jpg&_rs=1'',
         ''https://www.quebec511.info/Carte/Fenetres/camera.ashx?id=42&format=m3u8&_rs=1'',
         ''https://www.quebec511.info/Carte/Fenetres/camera.ashx?id=42&_rs=1'']"
    by (simp add: urls_of_def)
  from a b u r t' v l show ?thesis by blast
qed

section \<open>Properties of the slideshow driver\<close>

lemma pick_in_range:
  assumes "0 \<le> r" and "r < 1"
  shows "nat \<lfloor>r * real (Suc n)\<rfloor> \<le> n"
proof -
  have "r * real (Suc n) < real (Suc n)"
    using assms by (simp add: mult_less_cancel_right2 del: of_nat_Suc)
  then have "\<lfloor>r * real (Suc n)\<rfloor> < int (Suc n)"
    by (simp add: floor_less_iff del: of_nat_Suc)
  then show ?thesis by linarith
qed

lemma shuffle_loop_mset:
  assumes "\<forall>i. 0 \<le> rnd i \<and> rnd i < 1"
  shows "k < length arr \<Longrightarrow> mset (shuffle_loop rnd k arr) = mset arr"
proof (induction k arbitrary: arr)
  case 0
  show ?case by simp
next
  case (Suc k)
  let ?j = "nat \<lfloor>rnd (Suc k) * real (Suc (Suc k))\<rfloor>"
  let ?arr = "arr[Suc k := arr ! ?j, ?j := arr ! Suc k]"
  from assms have "?j \<le> Suc k" by (intro pick_in_range) auto
  with Suc.prems have j: "?j < length arr" by linarith
  from Suc.prems j have m: "mset ?arr = mset arr" by (rule mset_swap [rotated])
  from Suc.prems have "k < length ?arr" by simp
  then have "mset (shuffle_loop rnd k ?arr) = mset ?arr" by (rule Suc.IH)
  with m show ?case by (simp add: Let_def)
qed

text \<open>
  C9. Whatever numbers in \<open>[0, 1)\<close> the random source returns, the shuffled list is a
  permutation of the input: the multiset of cameras, and so the multiset of their ids, is
  the same; with shuffling disabled the list is returned as it is.
\<close>

theorem shuffle_is_permutation:
  assumes "\<forall>i. 0 \<le> rnd i \<and> rnd i < 1"
  shows "mset (useShuffle rnd cams enabled) = mset cams
       \<and> mset (map cam_id (useShuffle rnd cams enabled)) = mset (map cam_id cams)"
proof -
  have "mset (useShuffle rnd cams enabled) = mset cams"
  proof (cases "cams = [] \<or> \<not> enabled")
    case True
    then show ?thesis by (auto simp add: useShuffle_def)
  next
    case False
    then have "length cams - 1 < length cams" by simp
    with assms show ?thesis by (simp add: useShuffle_def shuffle_loop_mset)
  qed
  then show ?thesis by (metis mset_map)
qed

theorem shuffle_is_permutation_witness:
  "(\<forall>i::nat. (0::real) \<le> 1 / 2 \<and> (1::real) / 2 < 1)
   \<and> useShuffle (\<lambda>i. 1 / 2) [cam42, cam43, cam44] True = [cam42, cam44, cam43]
   \<and> mset (map cam_id (useShuffle (\<lambda>i. 1 / 2) [cam42, cam43, cam44] True))
       = mset (map cam_id [cam42, cam43, cam44])"
proof -
  have h: "\<forall>i::nat. (0::real) \<le> (\<lambda>i. 1 / 2) i \<and> (\<lambda>i. 1 / 2) i < (1::real)" by simp
  have e: "useShuffle (\<lambda>i. 1 / 2) [cam42, cam43, cam44] True = [cam42, cam44, cam43]"
    by (simp add: useShuffle_def numeral_2_eq_2 Let_def)
  from shuffle_is_permutation [OF h, of "[cam42, cam43, cam44]" True] e
  show ?thesis by simp
qed

text \<open>
  What the dwell effect arms when it runs while playing a non-empty list: a timeout of
  \<open>max 3 dwellSec\<close> seconds, whose callback advances by the list of that render.
\<close>

lemma dwell_body_clamps:
  assumes "shown s \<noteq> []" and "playing s"
  shows "dwell_body s = Some \<lparr>delay = max 3 (dwellSec s) * 1000, closed_list = shown s\<rparr>
       \<and> max 3 (dwellSec s) * 1000 = (if dwellSec s < 3 then 3000 else dwellSec s * 1000)
       \<and> next_of (shown s) (index s) = (index s + 1) mod length (shown s)"
proof -
  from assms(1) have l: "max (length (shown s)) 1 = length (shown s)" by (cases "shown s") simp_all
  from assms(1) have p: "0 < length (shown s)" by simp
  have c: "current (shown s) (index s) \<noteq> None"
    unfolding current_def l using p by simp
  have n: "next_of (shown s) (index s) = (index s + 1) mod length (shown s)"
    unfolding next_of_def l by simp
  from c assms(2) n show ?thesis by (simp add: dwell_body_def max_def)
qed

text \<open>
  C10 does not hold of the code. The dwell effect arms a one-shot timeout and runs again
  only when \<open>playing\<close>, \<open>index\<close>, \<open>dwellSec\<close> or the id of the current camera changes.
  Mounted playing on the one camera \<open>cam42\<close> with a dwell of 10 seconds, the timeout of
  10000 ms fires, the index stays 0 and nothing is armed again; when the list then grows
  to two cameras the slideshow is playing a non-empty list with no timeout pending, and
  no timer event moves it. When the list grows while the first timeout is still pending,
  that timeout advances by the list of one camera it was armed with: the index stays 0
  instead of moving to 1, and again nothing is pending.
\<close>

theorem slideshow_stalls_after_list_grows:
  "mount [cam42] 10 True
     = \<lparr>shown = [cam42], dwellSec = 10, index = 0, playing = True,
        dwellTimer = Some \<lparr>delay = 10000, closed_list = [cam42]\<rparr>\<rparr>
   \<and> slide_step (mount [cam42] 10 True) DwellFires
     = \<lparr>shown = [cam42], dwellSec = 10, index = 0, playing = True, dwellTimer = None\<rparr>
   \<and> slide_step (slide_step (mount [cam42] 10 True) DwellFires) (NewProps [cam42, cam43] 10)
     = \<lparr>shown = [cam42, cam43], dwellSec = 10, index = 0, playing = True, dwellTimer = None\<rparr>
   \<and> slide_step (slide_step (slide_step (mount [cam42] 10 True) DwellFires)
        (NewProps [cam42, cam43] 10)) DwellFires
     = \<lparr>shown = [cam42, cam43], dwellSec = 10, index = 0, playing = True, dwellTimer = None\<rparr>
   \<and> slide_step (mount [cam42] 10 True) (NewProps [cam42, cam43] 10)
     = \<lparr>shown = [cam42, cam43], dwellSec = 10, index = 0, playing = True,
        dwellTimer = Some \<lparr>delay = 10000, closed_list = [cam42]\<rparr>\<rparr>
   \<and> slide_step (slide_step (mount [cam42] 10 True) (NewProps [cam42, cam43] 10)) DwellFires
     = \<lparr>shown = [cam42, cam43], dwellSec = 10, index = 0, playing = True, dwellTimer = None\<rparr>"
proof -
  have m: "mount [cam42] 10 True
     = \<lparr>shown = [cam42], dwellSec = 10, index = 0, playing = True,
        dwellTimer = Some \<lparr>delay = 10000, closed_list = [cam42]\<rparr>\<rparr>"
    by (simp add: mount_def dwell_body_def current_def Let_def)
  have f: "slide_step \<lparr>shown = [cam42], dwellSec = 10, index = 0, playing = True,
        dwellTimer = Some \<lparr>delay = 10000, closed_list = [cam42]\<rparr>\<rparr> DwellFires
     = \<lparr>shown = [cam42], dwellSec = 10, index = 0, playing = True, dwellTimer = None\<rparr>"
    by (simp add: commit_def dwell_effect_def dwell_deps_def next_of_def Let_def)
  have g: "slide_step \<lparr>shown = [cam42], dwellSec = 10, index = 0, playing = True, dwellTimer = None\<rparr>
        (NewProps [cam42, cam43] 10)
     = \<lparr>shown = [cam42, cam43], dwellSec = 10, index = 0, playing = True, dwellTimer = None\<rparr>"
    by (simp add: commit_def dwell_effect_def dwell_deps_def current_def Let_def)
  have h: "slide_step \<lparr>shown = [cam42, cam43], dwellSec = 10, index = 0, playing = True,
        dwellTimer = None\<rparr> DwellFires
     = \<lparr>shown = [cam42, cam43], dwellSec = 10, index = 0, playing = True, dwellTimer = None\<rparr>"
    by simp
  have k: "slide_step \<lparr>shown = [cam42], dwellSec = 10, index = 0, playing = True,
        dwellTimer = Some \<lparr>delay = 10000, closed_list = [cam42]\<rparr>\<rparr> (NewProps [cam42, cam43] 10)
     = \<lparr>shown = [cam42, cam43], dwellSec = 10, index = 0, playing = True,
        dwellTimer = Some \<lparr>delay = 10000, closed_list = [cam42]\<rparr>\<rparr>"
    by (simp add: commit_def dwell_effect_def dwell_deps_def current_def Let_def)
  have l: "slide_step \<lparr>shown = [cam42, cam43], dwellSec = 10, index = 0, playing = True,
        dwellTimer = Some \<lparr>delay = 10000, closed_list = [cam42]\<rparr>\<rparr> DwellFires
     = \<lparr>shown = [cam42, cam43], dwellSec = 10, index = 0, playing = True, dwellTimer = None\<rparr>"
    by (simp add: commit_def dwell_effect_def dwell_deps_def next_of_def Let_def)
  from m f g h k l show ?thesis by simp
qed

section \<open>Properties of the feed loader and the filter\<close>

lemma dedupe_fold_set:
  "set (foldl (\<lambda>acc x. if x \<in> set acc then acc else acc @ [x]) acc xs) = set acc \<union> set xs"
  by (induction xs arbitrary: acc) auto

lemma dedupe_fold_distinct:
  "distinct acc \<Longrightarrow> distinct (foldl (\<lambda>acc x. if x \<in> set acc then acc else acc @ [x]) acc xs)"
  by (induction xs arbitrary: acc) auto

lemma set_dedupe: "set (dedupe xs) = set xs"
  by (simp add: dedupe_def dedupe_fold_set)

lemma distinct_dedupe: "distinct (dedupe xs)"
  by (simp add: dedupe_def dedupe_fold_distinct)

lemma load_outcome:
  "snd (load numstr Papa_parse net cancelled s) = failed cancelled (s\<lparr>loading := True, error := ''''\<rparr>)
   \<or> (\<exists>items. snd (load numstr Papa_parse net cancelled s)
                  = loaded cancelled items (s\<lparr>loading := True, error := ''''\<rparr>))"
  by (auto simp add: load_def Let_def split: option.splits geo_body.splits)

text \<open>
  C6, as amended. After a load that succeeded (the hook is mounted and no error is set),
  from either endpoint, the regions list is the sorted list of the distinct region values
  of the loaded cameras: it is sorted by code units, has no duplicates, and holds exactly
  the region values that occur, the empty string among them when a camera has no region.
\<close>

theorem regions_sorted_distinct:
  assumes "\<not> cancelled" and "error (snd (load numstr Papa_parse net cancelled s)) = ''''"
  shows "regions (snd (load numstr Papa_parse net cancelled s))
           = sort (dedupe (map region (cameras (snd (load numstr Papa_parse net cancelled s)))))
       \<and> sorted (regions (snd (load numstr Papa_parse net cancelled s)))
       \<and> distinct (regions (snd (load numstr Papa_parse net cancelled s)))
       \<and> set (regions (snd (load numstr Papa_parse net cancelled s)))
           = set (map region (cameras (snd (load numstr Papa_parse net cancelled s))))"
proof -
  let ?s' = "snd (load numstr Papa_parse net cancelled s)"
  from assms have "?s' \<noteq> failed cancelled (s\<lparr>loading := True, error := ''''\<rparr>)"
    by (auto simp add: failed_def)
  with load_outcome [of numstr Papa_parse net cancelled s]
  obtain items where "?s' = loaded cancelled items (s\<lparr>loading := True, error := ''''\<rparr>)"
    by blast
  with assms(1) have c: "cameras ?s' = items" and r: "regions ?s' = regions_of items"
    by (simp_all add: loaded_def)
  from c r have e: "regions ?s' = sort (dedupe (map region (cameras ?s')))"
    by (simp add: regions_of_def)
  have "sorted (sort (dedupe (map region (cameras ?s'))))" by simp
  moreover have "distinct (sort (dedupe (map region (cameras ?s'))))"
    by (simp add: distinct_dedupe)
  moreover have "set (sort (dedupe (map region (cameras ?s')))) = set (map region (cameras ?s'))"
    by (simp add: set_dedupe)
  ultimately show ?thesis using e by simp
qed

theorem regions_sorted_distinct_witness:
  "\<not> False
   \<and> error (snd (load numstr_nat papa_lines net_geo_ok False useCameras_initial)) = ''''
   \<and> map region (cameras (snd (load numstr_nat papa_lines net_geo_ok False useCameras_initial)))
       = [''Outaouais'', '''']
   \<and> regions (snd (load numstr_nat papa_lines net_geo_ok False useCameras_initial))
       = ['''', ''Outaouais'']
   \<and> sorted (regions (snd (load numstr_nat papa_lines net_geo_ok False useCameras_initial)))
   \<and> distinct (regions (snd (load numstr_nat papa_lines net_geo_ok False useCameras_initial)))"
proof -
  have e: "error (snd (load numstr_nat papa_lines net_geo_ok False useCameras_initial)) = ''''"
    by code_simp
  have m: "map region (cameras (snd (load numstr_nat papa_lines net_geo_ok False useCameras_initial)))
       = [''Outaouais'', '''']"
    by code_simp
  have r: "regions (snd (load numstr_nat papa_lines net_geo_ok False useCameras_initial))
       = ['''', ''Outaouais'']"
    by code_simp
  from regions_sorted_distinct [OF _ e] e m r show ?thesis by blast
qed

text \<open>
  C6 as stated fails: empty region values are not left out. A feature without
  properties loads as a camera whose region is the empty string, and the regions list
  of that successful load starts with the empty string.
\<close>

theorem empty_region_is_listed:
  "error (snd (load numstr_nat papa_lines net_geo_ok False useCameras_initial)) = '''' \<and>
   regions (snd (load numstr_nat papa_lines net_geo_ok False useCameras_initial))
     = ['''', ''Outaouais'']"
  by code_simp

text \<open>
  C4, as amended. When the primary request is answered with a status outside 2xx, the
  loader requests the CSV endpoint next, and when that answer is fine its cameras are the
  rows the CSV library returns for the text with \<open>header\<close> and \<open>skipEmptyLines\<close> set,
  each normalised. When the primary request fails by a network error, or its 2xx answer
  has a body that does not parse, the loader sets the error at once: the CSV endpoint is
  not requested.
\<close>

theorem csv_fallback_only_on_bad_status:
  "(geojson_reply net = Some gjRes \<and> \<not> geo_ok gjRes \<longrightarrow>
      fst (load numstr Papa_parse net cancelled s) = [Geojson, Csv]
      \<and> (csv_reply net = Some res \<and> csv_ok res \<and> csv_text res = Some body
           \<and> those (map (normalizeCamera numstr)
                      (Papa_parse body \<lparr>header = True, skipEmptyLines = True\<rparr>)) = Some items
         \<longrightarrow> snd (load numstr Papa_parse net cancelled s)
               = loaded cancelled items (s\<lparr>loading := True, error := ''''\<rparr>)))
   \<and> (geojson_reply net = None
        \<or> (geojson_reply net = Some gjRes \<and> geo_ok gjRes \<and> geo_body gjRes = Unparseable)
      \<longrightarrow> load numstr Papa_parse net cancelled s
            = ([Geojson], failed cancelled (s\<lparr>loading := True, error := ''''\<rparr>)))"
  by (auto simp add: load_def Let_def split: option.splits)

theorem csv_fallback_only_on_bad_status_witness:
  "geojson_reply net_primary_503 = Some \<lparr>geo_ok = False, geo_body = Unparseable\<rparr>
   \<and> csv_reply net_primary_503 = Some csv_healthy \<and> csv_ok csv_healthy
   \<and> load numstr_nat papa_lines net_primary_503 False useCameras_initial
       = ([Geojson, Csv],
          \<lparr>cameras = [cam_csv], regions = [''Outaouais''], loading = False, error = ''''\<rparr>)
   \<and> geojson_reply net_primary_down = None
   \<and> fst (load numstr_nat papa_lines net_primary_down False useCameras_initial) = [Geojson]"
proof -
  have a: "geojson_reply net_primary_503 = Some \<lparr>geo_ok = False, geo_body = Unparseable\<rparr>"
    and b: "csv_reply net_primary_503 = Some csv_healthy" and c: "csv_ok csv_healthy"
    and d: "geojson_reply net_primary_down = None"
    by (simp_all add: net_primary_503_def net_primary_down_def csv_healthy_def)
  have t: "csv_text csv_healthy
      = Some (''IDEcamera,NomRegionDiffusion,URL_FLUX_DONNEE'' @ [CHR 0x0A] @ [CHR 0x0A]
        @ ''3012,Outaouais,https://www.quebec511.info/Carte/Fenetres/camera.ashx?id=42'' @ [CHR 0x0A])"
    by (simp add: csv_healthy_def)
  have p: "those (map (normalizeCamera numstr_nat)
             (papa_lines (''IDEcamera,NomRegionDiffusion,URL_FLUX_DONNEE'' @ [CHR 0x0A] @ [CHR 0x0A]
        @ ''3012,Outaouais,https://www.quebec511.info/Carte/Fenetres/camera.ashx?id=42'' @ [CHR 0x0A])
                \<lparr>header = True, skipEmptyLines = True\<rparr>)) = Some [cam_csv]"
    by code_simp
  have l: "loaded False [cam_csv] (useCameras_initial\<lparr>loading := True, error := ''''\<rparr>)
      = \<lparr>cameras = [cam_csv], regions = [''Outaouais''], loading = False, error = ''''\<rparr>"
    by code_simp
  note th = csv_fallback_only_on_bad_status [where numstr = numstr_nat and Papa_parse = papa_lines
      and cancelled = False and s = useCameras_initial and res = csv_healthy and items = "[cam_csv]"
      and body = "''IDEcamera,NomRegionDiffusion,URL_FLUX_DONNEE'' @ [CHR 0x0A] @ [CHR 0x0A]
        @ ''3012,Outaouais,https://www.quebec511.info/Carte/Fenetres/camera.ashx?id=42'' @ [CHR 0x0A]"]
  from th [where net = net_primary_503 and gjRes = "\<lparr>geo_ok = False, geo_body = Unparseable\<rparr>"]
    a b c t p l
  have x: "load numstr_nat papa_lines net_primary_503 False useCameras_initial
       = ([Geojson, Csv],
          \<lparr>cameras = [cam_csv], regions = [''Outaouais''], loading = False, error = ''''\<rparr>)"
    by (simp add: prod_eq_iff)
  from th [where net = net_primary_down] d
  have y: "fst (load numstr_nat papa_lines net_primary_down False useCameras_initial) = [Geojson]"
    by simp
  from a b c d x y show ?thesis by blast
qed

text \<open>
  C4 as stated fails: a network error of the primary request, and a 2xx answer whose body
  does not parse, end in the error although the CSV endpoint would have answered; it is
  never requested.
\<close>

theorem no_fallback_on_network_error_or_bad_body:
  "csv_reply net_primary_down = Some csv_healthy \<and> csv_ok csv_healthy \<and>
   load numstr_nat papa_lines net_primary_down False useCameras_initial
     = ([Geojson],
        \<lparr>cameras = [], regions = [], loading = False,
         error = ''Failed to load cameras (maybe CORS). Try a dev proxy or build-time fetch.''\<rparr>) \<and>
   csv_reply net_primary_malformed = Some csv_healthy \<and>
   load numstr_nat papa_lines net_primary_malformed False useCameras_initial
     = ([Geojson],
        \<lparr>cameras = [], regions = [], loading = False,
         error = ''Failed to load cameras (maybe CORS). Try a dev proxy or build-time fetch.''\<rparr>)"
  by (simp add: load_def failed_def net_primary_down_def net_primary_malformed_def
      csv_healthy_def useCameras_initial_def)

text \<open>
  C3, as amended. Every camera of the filtered set is a loaded camera with a non-empty
  viewer url, in the selected region (when one is selected), and a camera whose url is
  empty is never in the filtered set. Whether an id can be derived from the url is not
  checked.
\<close>

theorem filtered_cameras_have_url:
  "set (filtered cams rgn query) \<subseteq> set cams
   \<and> list_all (\<lambda>c. url c \<noteq> '''' \<and> (rgn = '''' \<or> region c = rgn)) (filtered cams rgn query)
   \<and> (url c = '''' \<longrightarrow> c \<notin> set (filtered cams rgn query))"
  by (auto simp add: filtered_def Let_def list_all_iff)

theorem filtered_cameras_have_url_witness:
  "url cam_no_id \<noteq> '''' \<and> url (cam42\<lparr>url := ''''\<rparr>) = ''''
   \<and> filtered [cam42\<lparr>url := ''''\<rparr>, cam_no_id, cam42] ''Outaouais'' '' gatineau ''
       = [cam_no_id, cam42]
   \<and> cam42\<lparr>url := ''''\<rparr> \<notin> set (filtered [cam42\<lparr>url := ''''\<rparr>, cam_no_id, cam42] ''Outaouais'' '' gatineau '')"
proof -
  have f: "filtered [cam42\<lparr>url := ''''\<rparr>, cam_no_id, cam42] ''Outaouais'' '' gatineau ''
       = [cam_no_id, cam42]"
    by code_simp
  have u: "url cam_no_id \<noteq> ''''" and e: "url (cam42\<lparr>url := ''''\<rparr>) = ''''"
    by (simp_all add: cam_no_id_def)
  from filtered_cameras_have_url [of "[cam42\<lparr>url := ''''\<rparr>, cam_no_id, cam42]" "''Outaouais''"
      "'' gatineau ''" "cam42\<lparr>url := ''''\<rparr>"] e
  have "cam42\<lparr>url := ''''\<rparr> \<notin> set (filtered [cam42\<lparr>url := ''''\<rparr>, cam_no_id, cam42] ''Outaouais'' '' gatineau '')"
    by blast
  with f u e show ?thesis by blast
qed

text \<open>
  C3 as stated fails: the filter asks for a non-empty url only. A feature whose viewer
  URL has no \<open>id\<close> parameter loads as a camera that passes the filter, yet no id can be
  derived from its url and it has no variant set.
\<close>

theorem camera_without_id_is_playable:
  "filtered (cameras (snd (load numstr_nat papa_lines net_geo_ok False useCameras_initial)))
     ''Outaouais'' '''' = [cam_no_id] \<and>
   extractIdFromFenetre URL_std (url cam_no_id) = '''' \<and>
   buildVariants URL_std origin_prod (Some cam_no_id) 0 = None"
  by code_simp

end
